theory Spec2Isabelle
  imports Complex_Main "HOL-Library.Word"
begin

unbundle bit_operations_syntax

section \<open>The ANC350 telegram client and axis poller\<close>

text \<open>
  A shallow embedding of the two clients of the NCore telegram protocol found in the
  repository: the motor driver (\<^verbatim>\<open>anc350AsynMotor.c\<close>: \<^verbatim>\<open>motorAxisSet\<close>,
  \<^verbatim>\<open>motorAxisGet\<close>, \<^verbatim>\<open>drvAnc350GetAxisStatus\<close>) and the record device support
  (\<^verbatim>\<open>devAnc350.c\<close>: \<^verbatim>\<open>callbackLiRead\<close>, \<^verbatim>\<open>callbackLoWrite\<close>).

  Conventions of the embedding:
  \<^item> \<^verbatim>\<open>Int32\<close> is a 32-bit word; a \<^verbatim>\<open>char\<close> buffer is a list of 8-bit words.
  \<^item> The file-level counters \<^verbatim>\<open>mid\<close> and \<^verbatim>\<open>comms\<close> are C \<^verbatim>\<open>int\<close>s that the
    code keeps far away from the ends of their range (\<^verbatim>\<open>mid\<close> is reset at 10000); they are
    HOL integers.
  \<^item> The asyn port is an external collaborator.  It is a stream of answers, one per call, and
    a trace of the calls made, so that every transport call of the source is an event.
  \<^item> The union \<^verbatim>\<open>tel\<close> that overlays a byte array and an \<^verbatim>\<open>UcAckTelegram\<close> is a list
    of 28 bytes, read field by field; its contents before the reply is copied in (an
    uninitialised automatic variable in C) is an argument of the model.
  \<^item> Tracing and logging calls (\<^verbatim>\<open>asynPrint\<close>, \<^verbatim>\<open>drvPrint\<close>) have no effect on the state
    and are left out.
\<close>

subsection \<open>Telegrams (\<^verbatim>\<open>ucprotocol.h\<close>)\<close>

type_synonym byte = "8 word"
type_synonym Int32 = "32 word"

definition UC_SET :: Int32 where "UC_SET = 0"
definition UC_GET :: Int32 where "UC_GET = 1"
definition UC_TELL :: Int32 where "UC_TELL = 4"

text \<open>The header \<^verbatim>\<open>UcTelegram\<close>: five \<^verbatim>\<open>Int32\<close> fields in this order.\<close>

record UcTelegram =
  length_f :: Int32
  opcode :: Int32
  address :: Int32
  index_f :: Int32
  correlationNumber :: Int32

text \<open>
  The bytes of an \<^verbatim>\<open>Int32\<close> in memory.  The source sends and receives structures as
  they lie in memory (no byte-order conversion); the embedding fixes the little-endian
  layout of the usual IOC host.
\<close>

definition enc32 :: "Int32 \<Rightarrow> byte list" where
  "enc32 w = [ucast w, ucast (drop_bit 8 w), ucast (drop_bit 16 w), ucast (drop_bit 24 w)]"

definition dec32 :: "byte list \<Rightarrow> Int32" where
  "dec32 bs = foldr (\<lambda>b acc. ucast b OR push_bit 8 acc) bs 0"

definition enc_hdr :: "UcTelegram \<Rightarrow> byte list" where
  "enc_hdr h = enc32 (length_f h) @ enc32 (opcode h) @ enc32 (address h)
               @ enc32 (index_f h) @ enc32 (correlationNumber h)"

text \<open>Sizes of the structures: \<^verbatim>\<open>sizeof(Int32)\<close>, \<^verbatim>\<open>sizeof(UcGetTelegram)\<close>,
  \<^verbatim>\<open>sizeof(UcSetTelegram)\<close>, \<^verbatim>\<open>sizeof(UcAckTelegram)\<close>.\<close>

definition sizeof_Int32 :: nat where "sizeof_Int32 = 4"
definition sizeof_UcGetTelegram :: nat where "sizeof_UcGetTelegram = 20"
definition sizeof_UcSetTelegram :: nat where "sizeof_UcSetTelegram = 24"
definition sizeof_UcAckTelegram :: nat where "sizeof_UcAckTelegram = 28"

text \<open>The \<open>i\<close>-th \<^verbatim>\<open>Int32\<close> of a buffer seen through the union.\<close>

definition word_at :: "nat \<Rightarrow> byte list \<Rightarrow> Int32" where
  "word_at i buf = dec32 (take 4 (drop (4 * i) buf))"

definition ack_length :: "byte list \<Rightarrow> Int32" where
  "ack_length tel = word_at 0 tel"

definition ack_correlationNumber :: "byte list \<Rightarrow> Int32" where
  "ack_correlationNumber tel = word_at 4 tel"

definition ack_reason :: "byte list \<Rightarrow> Int32" where
  "ack_reason tel = word_at 5 tel"

definition ack_data0 :: "byte list \<Rightarrow> Int32" where
  "ack_data0 tel = word_at 6 tel"

text \<open>\<^verbatim>\<open>for(count = 0; count < nBytesRead; count++) tel.raw[count + off] = raw[count];\<close>\<close>

definition overlay :: "nat \<Rightarrow> byte list \<Rightarrow> byte list \<Rightarrow> byte list" where
  "overlay off bs tel = take off tel @ bs @ drop (off + length bs) tel"

text \<open>\<^verbatim>\<open>tel.ack.hdr.length = v;\<close>\<close>

definition set_ack_length :: "Int32 \<Rightarrow> byte list \<Rightarrow> byte list" where
  "set_ack_length v tel = overlay 0 (enc32 v) tel"

subsection \<open>The message id counter\<close>

text \<open>
  Both files keep a file-level \<^verbatim>\<open>static int mid = 0\<close> and take the next id with
  \<^verbatim>\<open>
  int localMid = 1;
  if (epicsMutexLock(midMutexId) == epicsMutexLockOK) {
    mid++;
    if (mid > 10000){ mid = 1; }
    localMid = mid;
  } else { /* error message */ }
  epicsMutexUnlock(midMutexId);
  \<close>
  \<open>next_mid lockOK mid\<close> is the pair of \<^verbatim>\<open>localMid\<close> and the new value of \<^verbatim>\<open>mid\<close>.
\<close>

definition next_mid :: "bool \<Rightarrow> int \<Rightarrow> int \<times> int" where
  "next_mid lockOK mid =
     (if lockOK then
        (let mid1 = mid + 1;
             mid2 = (if mid1 > 10000 then 1 else mid1)
         in (mid2, mid2))
      else (1, mid))"

text \<open>The counter after \<open>n\<close> sequential calls that got the lock, and the id the \<open>n\<close>-th
  such call hands out (calls are numbered from 1).\<close>

primrec mid_after :: "nat \<Rightarrow> int \<Rightarrow> int" where
  "mid_after 0 mid = mid"
| "mid_after (Suc n) mid = snd (next_mid True (mid_after n mid))"

definition nth_localMid :: "nat \<Rightarrow> int" where
  "nth_localMid n = fst (next_mid True (mid_after (n - 1) 0))"

subsection \<open>The asyn port\<close>

text \<open>The status codes of \<^verbatim>\<open>asynDriver.h\<close> (asyn module).\<close>

datatype asynStatus =
  asynSuccess | asynTimeout | asynOverflow | asynError | asynDisconnected | asynDisabled

text \<open>
  What the port does is not decided by the program.  Each call on the port consumes the
  next answer of the port: a status, the number of bytes a write transferred, and the bytes
  a read delivered (a read never delivers more than the \<^verbatim>\<open>maxBytes\<close> it was asked for).  The
  calls are recorded with their arguments.
\<close>

record answer =
  a_status :: asynStatus
  a_nbytes :: nat
  a_data :: "byte list"

datatype event =
  EvFlush
| EvWrite "byte list"
| EvRead nat
| EvSyncWrite "byte list"
| EvSyncWriteRead "byte list" nat

record port =
  answers :: "nat \<Rightarrow> answer"
  trace :: "event list"

text \<open>The answer the port gives to the next call, and the call itself.\<close>

definition next_answer :: "port \<Rightarrow> answer" where
  "next_answer p = answers p (length (trace p))"

definition port_call :: "event \<Rightarrow> port \<Rightarrow> answer \<times> port" where
  "port_call ev p = (next_answer p, p\<lparr>trace := trace p @ [ev]\<rparr>)"

text \<open>\<^verbatim>\<open>poctet->flush\<close>, \<^verbatim>\<open>poctet->write\<close>, \<^verbatim>\<open>poctet->read\<close> of the \<^verbatim>\<open>asynOctet\<close>
  interface.\<close>

definition octet_flush :: "port \<Rightarrow> asynStatus \<times> port" where
  "octet_flush p = (let (a, p') = port_call EvFlush p in (a_status a, p'))"

definition octet_write :: "byte list \<Rightarrow> port \<Rightarrow> asynStatus \<times> nat \<times> port" where
  "octet_write msg p = (let (a, p') = port_call (EvWrite msg) p in (a_status a, a_nbytes a, p'))"

definition octet_read :: "nat \<Rightarrow> port \<Rightarrow> asynStatus \<times> byte list \<times> port" where
  "octet_read maxBytes p =
     (let (a, p') = port_call (EvRead maxBytes) p in (a_status a, take maxBytes (a_data a), p'))"

text \<open>\<^verbatim>\<open>pasynOctetSyncIO->write\<close> and \<^verbatim>\<open>pasynOctetSyncIO->writeRead\<close>.\<close>

definition syncio_write :: "byte list \<Rightarrow> port \<Rightarrow> asynStatus \<times> nat \<times> port" where
  "syncio_write msg p =
     (let (a, p') = port_call (EvSyncWrite msg) p in (a_status a, a_nbytes a, p'))"

definition syncio_writeRead ::
  "byte list \<Rightarrow> nat \<Rightarrow> port \<Rightarrow> asynStatus \<times> nat \<times> byte list \<times> port" where
  "syncio_writeRead msg maxBytes p =
     (let (a, p') = port_call (EvSyncWriteRead msg maxBytes) p
      in (a_status a, a_nbytes a, take maxBytes (a_data a), p'))"

subsection \<open>The motor driver: state (\<^verbatim>\<open>anc350AsynMotor.c\<close>)\<close>

text \<open>Return codes of \<^verbatim>\<open>motor_interface.h\<close> (motor module).  The driver compares them
  with \<^verbatim>\<open>asynSuccess\<close>, which is 0 as well.\<close>

definition MOTOR_AXIS_OK :: int where "MOTOR_AXIS_OK = 0"
definition MOTOR_AXIS_ERROR :: int where "MOTOR_AXIS_ERROR = - 1"

text \<open>Addresses and status bits of \<^verbatim>\<open>anc350.h\<close>.\<close>

definition ID_ANC_STATUS :: Int32 where "ID_ANC_STATUS = 0x0404"
definition ANC_STATUS_RUNNING :: Int32 where "ANC_STATUS_RUNNING = 0x0001"
definition ANC_STATUS_HUMP :: Int32 where "ANC_STATUS_HUMP = 0x0002"
definition ANC_STATUS_REF_VALID :: Int32 where "ANC_STATUS_REF_VALID = 0x0800"
definition ID_ANC_COUNTER :: Int32 where "ID_ANC_COUNTER = 0x0415"
definition ID_ANC_REFCOUNTER :: Int32 where "ID_ANC_REFCOUNTER = 0x0407"
definition ID_ANC_SGL_FWD :: Int32 where "ID_ANC_SGL_FWD = 0x0410"
definition ID_ANC_AMPL :: Int32 where "ID_ANC_AMPL = 0x0400"

text \<open>
  The parameters of an axis that the driver writes (\<^verbatim>\<open>motorAxisParam_t\<close>, kept by the
  motor module's parameter library).  Every value the driver stores is a whole number, so a
  parameter table is a function to the integers; \<^verbatim>\<open>callCallback\<close> only notifies the motor
  record and is left out.
\<close>

datatype motorAxisParam_t =
  motorAxisPosition | motorAxisEncoderPosn | motorAxisDirection | motorAxisDone
| motorAxisHighHardLimit | motorAxisLowHardLimit | motorAxisHomeSignal | motorAxisHomed
| motorAxisProblem | motorAxisCommError | motorAxisHasEncoder

type_synonym PARAMS = "motorAxisParam_t \<Rightarrow> int"

text \<open>
  \<^verbatim>\<open>struct motorAxisHandle\<close>.  The fields of type \<^verbatim>\<open>double\<close> that hold positions and the
  direction only ever receive 32-bit integers and differences of two of them, which a
  \<^verbatim>\<open>double\<close> represents exactly: they are integers here.  The amplitude is the quotient
  \<^verbatim>\<open>value / 1000.0\<close>, a real number here.
\<close>

record motorAxis =
  axis :: int
  params :: PARAMS
  scale :: int
  previous_position :: int
  previous_direction :: int
  reference_position :: int
  reference_search :: int
  amplitude :: real

text \<open>
  What one call of the driver can touch: the file-level statics \<^verbatim>\<open>mid\<close> and \<^verbatim>\<open>comms\<close>,
  the asyn port of the controller (\<^verbatim>\<open>pAxis->pasynUser\<close> and \<^verbatim>\<open>pAxis->pDrv->pasynUser\<close> are
  the same object, so \<^verbatim>\<open>logGlobal\<close> selects nothing), and the axis \<^verbatim>\<open>*pAxis\<close>.
\<close>

record motor_state =
  mid :: int
  comms :: int
  pasynUser :: port
  pAxis :: motorAxis

text \<open>What the environment decides in one call of \<^verbatim>\<open>motorAxisSet\<close> or \<^verbatim>\<open>motorAxisGet\<close>:
  whether \<^verbatim>\<open>epicsMutexLock(midMutexId)\<close> succeeds, and the bytes found in the
  uninitialised union \<^verbatim>\<open>tel\<close>.\<close>

record call_env =
  lockOK :: bool
  tel_init :: "byte list"

definition setInteger :: "motorAxisParam_t \<Rightarrow> int \<Rightarrow> motor_state \<Rightarrow> motor_state" where
  "setInteger function v s = s\<lparr>pAxis := (pAxis s)\<lparr>params := (params (pAxis s))(function := v)\<rparr>\<rparr>"

subsection \<open>\<^verbatim>\<open>motorAxisSet\<close> and \<^verbatim>\<open>motorAxisGet\<close>\<close>

text \<open>
  \<^verbatim>\<open>motorAxisSet\<close> builds the Set telegram (header and \<^verbatim>\<open>data[0]\<close>; the store to
  \<^verbatim>\<open>request.data[1]\<close> lies outside the 24 bytes that are sent), writes it and returns
  \<^verbatim>\<open>MOTOR_AXIS_ERROR\<close> if the write failed, \<^verbatim>\<open>MOTOR_AXIS_OK\<close> otherwise.  It reads nothing.
\<close>

definition motorAxisSet ::
  "call_env \<Rightarrow> Int32 \<Rightarrow> Int32 \<Rightarrow> motor_state \<Rightarrow> int \<times> motor_state" where
  "motorAxisSet e location v s =
     (let (localMid, mid') = next_mid (lockOK e) (mid s);
          hdr = \<lparr>length_f = of_nat (sizeof_UcSetTelegram - sizeof_Int32),
                 opcode = UC_SET,
                 address = location,
                 index_f = word_of_int (axis (pAxis s) - 1),
                 correlationNumber = word_of_int localMid\<rparr>;
          request = enc_hdr hdr @ enc32 v;
          (status, nBytesWritten, p') = syncio_write request (pasynUser s);
          s' = s\<lparr>mid := mid', pasynUser := p'\<rparr>
      in if status \<noteq> asynSuccess then (MOTOR_AXIS_ERROR, s') else (MOTOR_AXIS_OK, s'))"

text \<open>
  \<^verbatim>\<open>motorAxisGet\<close>: one \<^verbatim>\<open>writeRead\<close> of the Get telegram for at most 28 bytes.  On
  \<^verbatim>\<open>asynSuccess\<close> the bytes read are copied to the front of \<^verbatim>\<open>tel\<close>; if the correlation
  number found there is \<^verbatim>\<open>localMid\<close> the data word goes to \<^verbatim>\<open>*value\<close>, otherwise the status
  becomes \<^verbatim>\<open>asynError\<close>.  Then the failure counter and the comm error parameter are updated.
  The second component of the result is \<^verbatim>\<open>*value\<close> after the call.
\<close>

definition motorAxisGet ::
  "call_env \<Rightarrow> Int32 \<Rightarrow> Int32 \<Rightarrow> motor_state \<Rightarrow> int \<times> Int32 \<times> motor_state" where
  "motorAxisGet e location v s =
     (let (localMid, mid') = next_mid (lockOK e) (mid s);
          hdr = \<lparr>length_f = of_nat (sizeof_UcGetTelegram - sizeof_Int32),
                 opcode = UC_GET,
                 address = location,
                 index_f = word_of_int (axis (pAxis s) - 1),
                 correlationNumber = word_of_int localMid\<rparr>;
          request = enc_hdr hdr;
          (status, nBytesWritten, raw, p') = syncio_writeRead request 28 (pasynUser s);
          tel = (if status = asynSuccess then overlay 0 raw (tel_init e) else tel_init e);
          match = (status = asynSuccess \<and> ack_correlationNumber tel = word_of_int localMid);
          v' = (if match then ack_data0 tel else v);
          status' = (if status = asynSuccess \<and> \<not> match then asynError else status);
          s1 = s\<lparr>mid := mid', pasynUser := p'\<rparr>
      in if status' \<noteq> asynSuccess then
           (let s2 = s1\<lparr>comms := comms s1 + 1\<rparr>;
                s3 = (if comms s2 > 200 then setInteger motorAxisCommError 1 s2 else s2)
            in (MOTOR_AXIS_ERROR, v', s3))
         else
           (MOTOR_AXIS_OK, v', setInteger motorAxisCommError 0 (s1\<lparr>comms := 0\<rparr>)))"

text \<open>
  Names for the parts of one call of \<^verbatim>\<open>motorAxisGet\<close> in state \<open>s\<close>: the id it takes, the
  union after the bytes that were read are copied in, and the test
  \<^verbatim>\<open>status == asynSuccess && tel.ack.hdr.correlationNumber == localMid\<close>.
\<close>

definition get_localMid :: "call_env \<Rightarrow> motor_state \<Rightarrow> int" where
  "get_localMid e s = fst (next_mid (lockOK e) (mid s))"

definition get_reply :: "call_env \<Rightarrow> motor_state \<Rightarrow> byte list" where
  "get_reply e s = overlay 0 (take 28 (a_data (next_answer (pasynUser s)))) (tel_init e)"

definition get_matched :: "call_env \<Rightarrow> motor_state \<Rightarrow> bool" where
  "get_matched e s \<longleftrightarrow>
     a_status (next_answer (pasynUser s)) = asynSuccess
     \<and> ack_correlationNumber (get_reply e s) = word_of_int (get_localMid e s)"


subsection \<open>Several controllers\<close>

text \<open>
  The driver keeps a list of controllers (\<^verbatim>\<open>pFirstDrv\<close>), each with its card number, its
  asyn port and its array of axes; \<^verbatim>\<open>mid\<close> and \<^verbatim>\<open>comms\<close> are file-level statics, one of
  each for all controllers.  An axis handle is the card number and the index in the
  array.  A call on a handle runs on the statics, the port of that card and that axis, and
  writes them back.
\<close>

type_synonym AXIS_HDL = "int \<times> nat"

record world =
  w_mid :: int
  w_comms :: int
  w_ports :: "int \<Rightarrow> port"
  w_axes :: "AXIS_HDL \<Rightarrow> motorAxis"

definition axis_view :: "AXIS_HDL \<Rightarrow> world \<Rightarrow> motor_state" where
  "axis_view h w = \<lparr>mid = w_mid w, comms = w_comms w,
                    pasynUser = w_ports w (fst h), pAxis = w_axes w h\<rparr>"

definition axis_store :: "AXIS_HDL \<Rightarrow> motor_state \<Rightarrow> world \<Rightarrow> world" where
  "axis_store h s w = w\<lparr>w_mid := mid s, w_comms := comms s,
                         w_ports := (w_ports w)(fst h := pasynUser s),
                         w_axes := (w_axes w)(h := pAxis s)\<rparr>"

definition world_motorAxisGet ::
  "call_env \<Rightarrow> AXIS_HDL \<Rightarrow> Int32 \<Rightarrow> Int32 \<Rightarrow> world \<Rightarrow> int \<times> Int32 \<times> world" where
  "world_motorAxisGet e h location v w =
     (let (r, v', s') = motorAxisGet e location v (axis_view h w) in (r, v', axis_store h s' w))"

fun world_get_run :: "(call_env \<times> AXIS_HDL \<times> Int32) list \<Rightarrow> world \<Rightarrow> world" where
  "world_get_run [] w = w"
| "world_get_run (c # cs) w =
     world_get_run cs (snd (snd (world_motorAxisGet (fst c) (fst (snd c)) (snd (snd c)) 0 w)))"

subsection \<open>\<^verbatim>\<open>drvAnc350GetAxisStatus\<close>\<close>

text \<open>The numeric value of an \<^verbatim>\<open>asynStatus\<close>: the poller compares the \<^verbatim>\<open>int\<close> returned by
  \<^verbatim>\<open>motorAxisGet\<close> with \<^verbatim>\<open>asynSuccess\<close>.\<close>

fun asynStatus_code :: "asynStatus \<Rightarrow> int" where
  "asynStatus_code asynSuccess = 0"
| "asynStatus_code asynTimeout = 1"
| "asynStatus_code asynOverflow = 2"
| "asynStatus_code asynError = 3"
| "asynStatus_code asynDisconnected = 4"
| "asynStatus_code asynDisabled = 5"

text \<open>
  The local variables of \<^verbatim>\<open>drvAnc350GetAxisStatus\<close> that are read after they are
  written: \<^verbatim>\<open>value\<close> (uninitialised at entry), \<^verbatim>\<open>status\<close>, \<^verbatim>\<open>humpstatus\<close>, \<^verbatim>\<open>hump\<close>,
  \<^verbatim>\<open>reference_position\<close> and \<^verbatim>\<open>direction\<close>.
\<close>

record poll_locals =
  p_value :: Int32
  p_status :: int
  p_humpstatus :: int
  p_hump :: Int32
  p_reference_position :: int
  p_direction :: int

text \<open>What the environment decides during one poll: the axis mutex, the first contents of
  \<^verbatim>\<open>value\<close>, and the environment of each of the five telegram calls.\<close>

record poll_env =
  axisLockOK :: bool
  value_init :: Int32
  e_status :: call_env
  e_sgl :: call_env
  e_ampl :: call_env
  e_ref :: call_env
  e_pos :: call_env

text \<open>
  Lines 948 to 977: read the status word; if that succeeded publish done, handle the
  reference bit (finishing a reference search with one single step forward) and extract
  the hump bit.
\<close>

definition poll_status :: "poll_env \<Rightarrow> poll_locals \<times> motor_state \<Rightarrow> poll_locals \<times> motor_state" where
  "poll_status e ls =
     (let (l, s) = ls;
          (st, v, s1) = motorAxisGet (e_status e) ID_ANC_STATUS (p_value l) s;
          l1 = l\<lparr>p_value := v, p_status := st, p_humpstatus := st\<rparr>
      in if st = asynStatus_code asynSuccess then
           (let done = v AND ANC_STATUS_RUNNING;
                s2 = (if done = 0 then setInteger motorAxisDone 1 s1
                      else setInteger motorAxisDone 0 s1);
                referenced = drop_bit 11 (v AND ANC_STATUS_REF_VALID);
                (l3, s3) =
                  (if referenced = 0 then
                     (l1, setInteger motorAxisHomeSignal (sint referenced)
                            (setInteger motorAxisHomed (sint referenced) s2))
                   else if reference_search (pAxis s2) = 1 then
                     (let sa = s2\<lparr>pAxis := (pAxis s2)\<lparr>reference_search := 0\<rparr>\<rparr>;
                          (st', sb) = motorAxisSet (e_sgl e) ID_ANC_SGL_FWD 1 sa
                      in (l1\<lparr>p_status := st'\<rparr>,
                          setInteger motorAxisHomeSignal (sint referenced)
                            (setInteger motorAxisHomed (sint referenced)
                              (setInteger motorAxisDone 1 sb))))
                   else (l1, s2))
            in (l3\<lparr>p_hump := drop_bit 1 (v AND ANC_STATUS_HUMP)\<rparr>, s3))
         else (l1, s1))"

text \<open>Lines 980 and 981: read the amplitude and store \<^verbatim>\<open>value / 1000.0\<close>, whatever the
  status of the read.\<close>

definition poll_amplitude :: "poll_env \<Rightarrow> poll_locals \<times> motor_state \<Rightarrow> poll_locals \<times> motor_state" where
  "poll_amplitude e ls =
     (let (l, s) = ls;
          (st, v, s1) = motorAxisGet (e_ampl e) ID_ANC_AMPL (p_value l) s
      in (l\<lparr>p_value := v, p_status := st\<rparr>,
          s1\<lparr>pAxis := (pAxis s1)\<lparr>amplitude := real_of_int (sint v) / 1000\<rparr>\<rparr>))"

text \<open>Lines 984 to 989: read the reference position into the local variable, or keep the
  cached one.\<close>

definition poll_reference :: "poll_env \<Rightarrow> poll_locals \<times> motor_state \<Rightarrow> poll_locals \<times> motor_state" where
  "poll_reference e ls =
     (let (l, s) = ls;
          (st, v, s1) = motorAxisGet (e_ref e) ID_ANC_REFCOUNTER (p_value l) s;
          l1 = l\<lparr>p_value := v, p_status := st\<rparr>
      in if st = asynStatus_code asynSuccess
         then (l1\<lparr>p_reference_position := sint v\<rparr>, s1)
         else (l1\<lparr>p_reference_position := reference_position (pAxis s1)\<rparr>, s1))"

text \<open>Lines 1000 to 1016, run when the position was read: subtract the reference position,
  derive the direction from the change of position, publish and cache.  (The result of
  \<^verbatim>\<open>setDouble\<close> is assigned to \<^verbatim>\<open>status\<close> and never read.)\<close>

definition store_position :: "poll_locals \<times> motor_state \<Rightarrow> poll_locals \<times> motor_state" where
  "store_position ls =
     (let (l, s) = ls;
          position = sint (p_value l) - p_reference_position l;
          s1 = s\<lparr>pAxis := (pAxis s)\<lparr>reference_position := p_reference_position l\<rparr>\<rparr>;
          direction =
            (if position - previous_position (pAxis s1) > 500 then 1
             else if position - previous_position (pAxis s1) < - 500 then 0
             else previous_direction (pAxis s1));
          s2 = setInteger motorAxisDirection direction s1;
          s3 = s2\<lparr>pAxis := (pAxis s2)\<lparr>previous_position := position,
                                         previous_direction := direction\<rparr>\<rparr>;
          s4 = setInteger motorAxisPosition position s3;
          s5 = setInteger motorAxisEncoderPosn position s4
      in (l\<lparr>p_direction := direction\<rparr>, s5))"

definition poll_position :: "poll_env \<Rightarrow> poll_locals \<times> motor_state \<Rightarrow> poll_locals \<times> motor_state" where
  "poll_position e ls =
     (let (l, s) = ls;
          (st, v, s1) = motorAxisGet (e_pos e) ID_ANC_COUNTER (p_value l) s;
          l1 = l\<lparr>p_value := v, p_status := st\<rparr>
      in if st = asynStatus_code asynSuccess then store_position (l1, s1) else (l1, s1))"

text \<open>Lines 1019 to 1034: the hard limits from the hump bit and the direction, and the
  problem parameter.\<close>

definition poll_limits :: "Int32 \<Rightarrow> poll_locals \<times> motor_state \<Rightarrow> motor_state" where
  "poll_limits globalStatus ls =
     (let (l, s) = ls;
          s1 = (if p_hump l \<noteq> 0 \<and> p_humpstatus l = asynStatus_code asynSuccess then
                  (if p_direction l = 1
                   then setInteger motorAxisLowHardLimit 0 (setInteger motorAxisHighHardLimit 1 s)
                   else setInteger motorAxisLowHardLimit 1 (setInteger motorAxisHighHardLimit 0 s))
                else setInteger motorAxisLowHardLimit 0 (setInteger motorAxisHighHardLimit 0 s))
      in setInteger motorAxisProblem (uint globalStatus) s1)"

text \<open>The locals at entry: \<^verbatim>\<open>direction = 0\<close>, \<^verbatim>\<open>hump = 0\<close>, \<^verbatim>\<open>humpstatus = 0\<close>,
  \<^verbatim>\<open>reference_position = 0.0\<close>; \<^verbatim>\<open>value\<close> and \<^verbatim>\<open>status\<close> are assigned before use, except
  that \<^verbatim>\<open>value\<close> is read as it is when no read has succeeded yet.\<close>

definition poll_entry :: "poll_env \<Rightarrow> poll_locals" where
  "poll_entry e = \<lparr>p_value = value_init e, p_status = 0, p_humpstatus = 0, p_hump = 0,
                   p_reference_position = 0, p_direction = 0\<rparr>"

text \<open>The state in which each of the later reads is made.\<close>

definition before_amplitude :: "poll_env \<Rightarrow> motor_state \<Rightarrow> poll_locals \<times> motor_state" where
  "before_amplitude e s = poll_status e (poll_entry e, s)"

definition before_reference :: "poll_env \<Rightarrow> motor_state \<Rightarrow> poll_locals \<times> motor_state" where
  "before_reference e s = poll_amplitude e (before_amplitude e s)"

definition before_position :: "poll_env \<Rightarrow> motor_state \<Rightarrow> poll_locals \<times> motor_state" where
  "before_position e s = poll_reference e (before_reference e s)"

definition drvAnc350GetAxisStatus :: "poll_env \<Rightarrow> Int32 \<Rightarrow> motor_state \<Rightarrow> motor_state" where
  "drvAnc350GetAxisStatus e globalStatus s =
     (if axisLockOK e
      then poll_limits globalStatus (poll_position e (before_position e s))
      else s)"

subsection \<open>The record device support: state (\<^verbatim>\<open>devAnc350.c\<close>)\<close>

text \<open>
  The fields of a \<^verbatim>\<open>longin\<close> or \<^verbatim>\<open>longout\<close> record that the callbacks read or write,
  the port, and the file's own \<^verbatim>\<open>static int mid\<close>.  \<open>processCallbacks\<close> counts the calls
  of \<^verbatim>\<open>callbackRequestProcessCallback\<close> made by \<^verbatim>\<open>finish\<close>.
\<close>

record dev_state =
  dev_mid :: int
  dev_port :: port
  val :: Int32
  udf :: nat
  pact :: bool
  nsta :: nat
  nsev :: nat
  processCallbacks :: nat

text \<open>\<^verbatim>\<open>devPvt\<close>: the user parameter of the link (\<open>None\<close> is the null pointer) and the
  address parsed from the link.\<close>

record devPvt =
  userParam :: "string option"
  addr :: Int32

text \<open>What the environment decides in one callback: the mutex, the uninitialised union, and
  the number that \<^verbatim>\<open>sscanf(pdevPvt->userParam, "%x", &cmd)\<close> leaves in \<^verbatim>\<open>cmd\<close>.\<close>

record cb_env =
  cb_lockOK :: bool
  cb_tel_init :: "byte list"
  cmd :: Int32

text \<open>Alarm constants of EPICS base (\<^verbatim>\<open>alarm.h\<close>) and \<^verbatim>\<open>recGblSetSevr\<close>, which raises
  the pending alarm of the record if the new severity is higher.\<close>

definition READ_ALARM :: nat where "READ_ALARM = 1"
definition WRITE_ALARM :: nat where "WRITE_ALARM = 2"
definition MINOR_ALARM :: nat where "MINOR_ALARM = 1"
definition INVALID_ALARM :: nat where "INVALID_ALARM = 3"

definition recGblSetSevr :: "nat \<Rightarrow> nat \<Rightarrow> dev_state \<Rightarrow> dev_state" where
  "recGblSetSevr stat sevr s = (if nsev s < sevr then s\<lparr>nsta := stat, nsev := sevr\<rparr> else s)"

text \<open>The local variables of a callback that live across its loops.  \<open>raw\<close> holds the bytes
  of the latest read; only its first \<open>nBytesRead\<close> bytes are ever copied.\<close>

record locals =
  status :: asynStatus
  nBytesRead :: nat
  raw :: "byte list"
  retries :: nat
  tel :: "byte list"
  match :: nat
  msgretries :: nat

subsection \<open>\<^verbatim>\<open>writeIt\<close>, \<^verbatim>\<open>readIt\<close>, \<^verbatim>\<open>flushIt\<close>, \<^verbatim>\<open>finish\<close>\<close>

definition writeIt :: "byte list \<Rightarrow> dev_state \<Rightarrow> asynStatus \<times> dev_state" where
  "writeIt message s =
     (let nbytes = length message;
          (st, nbytesTransfered, p') = octet_write message (dev_port s);
          s1 = s\<lparr>dev_port := p'\<rparr>
      in if st \<noteq> asynSuccess then (st, recGblSetSevr WRITE_ALARM INVALID_ALARM s1)
         else if nbytes \<noteq> nbytesTransfered then (asynError, recGblSetSevr WRITE_ALARM MINOR_ALARM s1)
         else (st, s1))"

text \<open>\<^verbatim>\<open>status = readIt(pasynUser, raw, maxBytes, &nBytesRead);\<close>\<close>

definition readIt :: "nat \<Rightarrow> locals \<times> dev_state \<Rightarrow> locals \<times> dev_state" where
  "readIt maxBytes ls =
     (let (l, s) = ls;
          (st, bytes, p') = octet_read maxBytes (dev_port s)
      in (l\<lparr>status := st, nBytesRead := length bytes, raw := bytes\<rparr>, s\<lparr>dev_port := p'\<rparr>))"

definition flushIt :: "dev_state \<Rightarrow> asynStatus \<times> dev_state" where
  "flushIt s = (let (st, p') = octet_flush (dev_port s) in (st, s\<lparr>dev_port := p'\<rparr>))"

definition finish :: "dev_state \<Rightarrow> dev_state" where
  "finish s = (if pact s then s\<lparr>processCallbacks := processCallbacks s + 1\<rparr> else s)"

subsection \<open>The loops of \<^verbatim>\<open>callbackLiRead\<close> and \<^verbatim>\<open>callbackLoWrite\<close>\<close>

text \<open>
  \<^verbatim>\<open>
  while(nBytesRead == 0 && retries < 1){
    status = readIt(pasynUser,raw,sizeof(Int32),&nBytesRead);
    retries++;
  }
  \<close>
\<close>

function read_length_loop :: "locals \<times> dev_state \<Rightarrow> locals \<times> dev_state" where
  "read_length_loop (l, s) =
     (if nBytesRead l = 0 \<and> retries l < 1 then
        (let (l1, s1) = readIt sizeof_Int32 (l, s)
         in read_length_loop (l1\<lparr>retries := retries l1 + 1\<rparr>, s1))
      else (l, s))"
  by pat_completeness auto
termination
  by (relation "measure (\<lambda>(l, s). 1 - retries l)")
     (auto simp: readIt_def split: prod.splits)

declare read_length_loop.simps [simp del]

text \<open>
  \<^verbatim>\<open>
  while(nBytesRead != tel.ack.hdr.length && retries < limit){
    status = readIt(pasynUser,raw,tel.ack.hdr.length,&nBytesRead);
    retries++;
  }
  \<close>
  with \<open>limit\<close> 3 in \<^verbatim>\<open>callbackLiRead\<close> and 1 in \<^verbatim>\<open>callbackLoWrite\<close>.
\<close>

function read_rest_loop :: "nat \<Rightarrow> locals \<times> dev_state \<Rightarrow> locals \<times> dev_state" where
  "read_rest_loop limit (l, s) =
     (if nBytesRead l \<noteq> unat (ack_length (tel l)) \<and> retries l < limit then
        (let (l1, s1) = readIt (unat (ack_length (tel l))) (l, s)
         in read_rest_loop limit (l1\<lparr>retries := retries l1 + 1\<rparr>, s1))
      else (l, s))"
  by pat_completeness auto
termination
  by (relation "measure (\<lambda>(limit, l, s). limit - retries l)")
     (auto simp: readIt_def split: prod.splits)

declare read_rest_loop.simps [simp del]

text \<open>
  The body of the loop \<^verbatim>\<open>while(match == 0 && msgretries < 1)\<close>, in four parts.  After a
  successful read of the length word: copy the bytes read to the front of the union, reset
  \<^verbatim>\<open>nBytesRead\<close> and \<^verbatim>\<open>retries\<close>, and force the length field to 24.
\<close>

definition prepare_rest :: "locals \<Rightarrow> locals" where
  "prepare_rest l =
     (let la = l\<lparr>tel := overlay 0 (take (nBytesRead l) (raw l)) (tel l)\<rparr>;
          lb = la\<lparr>nBytesRead := 0, retries := 0\<rparr>
      in if ack_length (tel lb) \<noteq> 24 then lb\<lparr>tel := set_ack_length 24 (tel lb)\<rparr> else lb)"

text \<open>After the second loop: if the last read succeeded, copy its bytes behind the length
  field.\<close>

definition copy_rest :: "locals \<Rightarrow> locals" where
  "copy_rest l =
     (if status l = asynSuccess
      then l\<lparr>tel := overlay 4 (take (nBytesRead l) (raw l)) (tel l)\<rparr> else l)"

text \<open>The comparison of the correlation number.  \<open>store_val\<close> holds for
  \<^verbatim>\<open>callbackLiRead\<close>, which also stores the data word in \<^verbatim>\<open>pli->val\<close>.\<close>

definition check_match :: "bool \<Rightarrow> int \<Rightarrow> locals \<times> dev_state \<Rightarrow> locals \<times> dev_state" where
  "check_match store_val localMid ls =
     (let (l, s) = ls
      in if ack_correlationNumber (tel l) = word_of_int localMid \<and> status l = asynSuccess
         then (l\<lparr>match := 1\<rparr>,
               if store_val then s\<lparr>udf := 0, val := ack_data0 (tel l)\<rparr> else s\<lparr>udf := 0\<rparr>)
         else (l\<lparr>msgretries := msgretries l + 1\<rparr>, s))"

definition exchange_body ::
  "nat \<Rightarrow> bool \<Rightarrow> int \<Rightarrow> locals \<times> dev_state \<Rightarrow> locals \<times> dev_state" where
  "exchange_body limit store_val localMid ls =
     (let (l1, s1) = read_length_loop ls;
          (l2, s2) =
            (if status l1 = asynSuccess then
               (let (ld, sd) = read_rest_loop limit (prepare_rest l1, s1)
                in (copy_rest ld, sd))
             else (l1, s1))
      in check_match store_val localMid (l2, s2))"

text \<open>The read loops change neither \<^verbatim>\<open>match\<close> nor \<^verbatim>\<open>msgretries\<close>; the body sets
  \<^verbatim>\<open>match\<close> or counts one message retry.  This is what makes the outer loop end.\<close>

lemma readIt_match:
  "readIt n (l, s) = (l', s') \<Longrightarrow> match l' = match l \<and> msgretries l' = msgretries l"
  by (auto simp: readIt_def split: prod.splits)

lemma read_length_loop_match:
  "read_length_loop ls = (l', s') \<Longrightarrow>
     match l' = match (fst ls) \<and> msgretries l' = msgretries (fst ls)"
proof (induction ls arbitrary: l' s' rule: read_length_loop.induct)
  case (1 l s)
  show ?case
  proof (cases "nBytesRead l = 0 \<and> retries l < 1")
    case True
    obtain l1 s1 where r: "readIt sizeof_Int32 (l, s) = (l1, s1)"
      by (cases "readIt sizeof_Int32 (l, s)")
    from "1.prems" True r
    have "read_length_loop (l1\<lparr>retries := retries l1 + 1\<rparr>, s1) = (l', s')"
      by (simp add: read_length_loop.simps [of l s])
    from "1.IH" [OF True r [symmetric] refl this] readIt_match [OF r]
    show ?thesis by simp
  next
    case False
    with "1.prems" show ?thesis
      by (auto simp: read_length_loop.simps [of l s])
  qed
qed

lemma read_rest_loop_match:
  "read_rest_loop limit ls = (l', s') \<Longrightarrow>
     match l' = match (fst ls) \<and> msgretries l' = msgretries (fst ls)"
proof (induction limit ls arbitrary: l' s' rule: read_rest_loop.induct)
  case (1 limit l s)
  show ?case
  proof (cases "nBytesRead l \<noteq> unat (ack_length (tel l)) \<and> retries l < limit")
    case True
    obtain l1 s1 where r: "readIt (unat (ack_length (tel l))) (l, s) = (l1, s1)"
      by (cases "readIt (unat (ack_length (tel l))) (l, s)")
    from "1.prems" True r
    have "read_rest_loop limit (l1\<lparr>retries := retries l1 + 1\<rparr>, s1) = (l', s')"
      by (simp add: read_rest_loop.simps [of limit l s])
    from "1.IH" [OF True r [symmetric] refl this] readIt_match [OF r]
    show ?thesis by simp
  next
    case False
    with "1.prems" show ?thesis
      by (auto simp: read_rest_loop.simps [of limit l s])
  qed
qed

lemma exchange_body_progress:
  assumes "exchange_body limit store_val localMid (l, s) = (l', s')"
  shows "(match l' = 1 \<and> msgretries l' = msgretries l)
         \<or> (match l' = match l \<and> msgretries l' = msgretries l + 1)"
proof -
  obtain l1 s1 where a: "read_length_loop (l, s) = (l1, s1)"
    by (cases "read_length_loop (l, s)")
  have m1: "match l1 = match l \<and> msgretries l1 = msgretries l"
    using read_length_loop_match [OF a] by simp
  obtain ld sd where b: "read_rest_loop limit (prepare_rest l1, s1) = (ld, sd)"
    by (cases "read_rest_loop limit (prepare_rest l1, s1)")
  have mc: "match (prepare_rest l1) = match l1 \<and> msgretries (prepare_rest l1) = msgretries l1"
    by (simp add: prepare_rest_def Let_def)
  have md: "match (copy_rest ld) = match l \<and> msgretries (copy_rest ld) = msgretries l"
    using read_rest_loop_match [OF b] mc m1 by (simp add: copy_rest_def)
  from assms a b m1 md show ?thesis
    by (auto simp: exchange_body_def check_match_def Let_def split: if_splits)
qed

text \<open>\<^verbatim>\<open>while(match == 0 && msgretries < 1){ ... }\<close>\<close>

function exchange_loop ::
  "nat \<Rightarrow> bool \<Rightarrow> int \<Rightarrow> locals \<times> dev_state \<Rightarrow> locals \<times> dev_state" where
  "exchange_loop limit store_val localMid (l, s) =
     (if match l = 0 \<and> msgretries l < 1 then
        exchange_loop limit store_val localMid (exchange_body limit store_val localMid (l, s))
      else (l, s))"
  by pat_completeness auto
termination
proof (relation "measure (\<lambda>(limit, store_val, localMid, l, s).
                   if match l = 0 then 2 - msgretries l else 0)")
  show "wf (measure (\<lambda>(limit, store_val, localMid, l, s).
                   if match l = 0 then 2 - msgretries l else 0))"
    by simp
next
  fix limit :: nat and store_val :: bool and localMid :: int and l :: locals and s :: dev_state
  assume c: "match l = 0 \<and> msgretries l < 1"
  obtain l' s' where b: "exchange_body limit store_val localMid (l, s) = (l', s')"
    by (cases "exchange_body limit store_val localMid (l, s)")
  from exchange_body_progress [OF b] c
  show "((limit, store_val, localMid, exchange_body limit store_val localMid (l, s)),
         (limit, store_val, localMid, l, s))
        \<in> measure (\<lambda>(limit, store_val, localMid, l, s).
                   if match l = 0 then 2 - msgretries l else 0)"
    by (auto simp: b)
qed

declare exchange_loop.simps [simp del]

subsection \<open>\<^verbatim>\<open>callbackLiRead\<close> and \<^verbatim>\<open>callbackLoWrite\<close>\<close>

text \<open>
  The callbacks return nothing; the model returns the final values of their local
  variables next to the state, so that a property can speak of \<^verbatim>\<open>match\<close> and of the
  union \<^verbatim>\<open>tel\<close>.  The two callbacks make the same exchange once the request is built:
  flush, write, and if the write succeeded the loop above.  They differ in the telegram, in
  the limit of the second read loop, and in storing the data word.
\<close>

definition do_exchange ::
  "nat \<Rightarrow> bool \<Rightarrow> int \<Rightarrow> byte list \<Rightarrow> locals \<times> dev_state \<Rightarrow> locals \<times> dev_state" where
  "do_exchange limit store_val localMid request ls =
     (let (l0, s0) = ls;
          (st1, s1) = flushIt s0;
          (st2, s2) = writeIt request s1;
          l2 = l0\<lparr>status := st2\<rparr>
      in if st2 = asynSuccess then exchange_loop limit store_val localMid (l2, s2) else (l2, s2))"

text \<open>The locals at the declarations of a callback; \<^verbatim>\<open>status\<close> has no initial value in the
  source and is assigned before it is read.\<close>

definition locals_init :: "cb_env \<Rightarrow> locals" where
  "locals_init e = \<lparr>status = asynSuccess, nBytesRead = 0, raw = [], retries = 0,
                     tel = cb_tel_init e, match = 0, msgretries = 0\<rparr>"

definition callbackLiRead :: "cb_env \<Rightarrow> devPvt \<Rightarrow> dev_state \<Rightarrow> locals \<times> dev_state" where
  "callbackLiRead e pdevPvt s =
     (let (localMid, mid') = next_mid (cb_lockOK e) (dev_mid s);
          s0 = s\<lparr>dev_mid := mid'\<rparr>
      in case userParam pdevPvt of
           None \<Rightarrow> (locals_init e, finish (recGblSetSevr READ_ALARM INVALID_ALARM s0))
         | Some str \<Rightarrow>
             (let hdr = \<lparr>length_f = of_nat (sizeof_UcGetTelegram - sizeof_Int32),
                         opcode = UC_GET,
                         address = cmd e,
                         index_f = addr pdevPvt,
                         correlationNumber = word_of_int localMid\<rparr>;
                  request = enc_hdr hdr;
                  (l3, s3) = do_exchange 3 True localMid request (locals_init e, s0)
              in (l3, finish s3)))"

definition callbackLoWrite :: "cb_env \<Rightarrow> devPvt \<Rightarrow> dev_state \<Rightarrow> locals \<times> dev_state" where
  "callbackLoWrite e pdevPvt s =
     (let (localMid, mid') = next_mid (cb_lockOK e) (dev_mid s);
          s0 = s\<lparr>dev_mid := mid'\<rparr>
      in case userParam pdevPvt of
           None \<Rightarrow> (locals_init e, finish (recGblSetSevr READ_ALARM INVALID_ALARM s0))
         | Some str \<Rightarrow>
             (let hdr = \<lparr>length_f = of_nat (sizeof_UcSetTelegram - sizeof_Int32),
                         opcode = UC_SET,
                         address = cmd e,
                         index_f = addr pdevPvt,
                         correlationNumber = word_of_int localMid\<rparr>;
                  request = enc_hdr hdr @ enc32 (val s);
                  (l3, s3) = do_exchange 1 False localMid request (locals_init e, s0)
              in (l3, finish s3)))"

subsection \<open>Example data\<close>

text \<open>A port on which every call times out, a port that accepts every write in full and
  then delivers nothing, an axis with all parameters 0, and states built from them.\<close>

definition timeout_answer :: answer where
  "timeout_answer = \<lparr>a_status = asynTimeout, a_nbytes = 0, a_data = []\<rparr>"


definition write_only_port :: port where
  "write_only_port =
     \<lparr>answers = (\<lambda>n. if n = 0 then \<lparr>a_status = asynSuccess, a_nbytes = 24, a_data = []\<rparr>
                     else timeout_answer),
      trace = []\<rparr>"

definition axis1 :: motorAxis where
  "axis1 = \<lparr>axis = 1, params = (\<lambda>k. 0), scale = 1, previous_position = 0,
            previous_direction = 0, reference_position = 0, reference_search = 0,
            amplitude = 0\<rparr>"

definition env0 :: call_env where
  "env0 = \<lparr>lockOK = True, tel_init = replicate 28 0\<rparr>"



definition ID_ANC_TARGET :: Int32 where "ID_ANC_TARGET = 0x0408"




definition write_only_state :: motor_state where
  "write_only_state = \<lparr>mid = 0, comms = 0, pasynUser = write_only_port, pAxis = axis1\<rparr>"

section \<open>Properties\<close>

subsection \<open>The message id counter\<close>

lemma mid_after_Suc:
  "mid_after (Suc k) 0 = int (k mod 10000) + 1"
proof (induction k)
  case 0
  show ?case by (simp add: next_mid_def)
next
  case (Suc k)
  have bound: "k mod 10000 < 10000" by simp
  have step: "Suc k mod 10000 = (if k mod 10000 = 9999 then 0 else Suc (k mod 10000))"
    by (simp add: mod_Suc)
  have "mid_after (Suc (Suc k)) 0 = snd (next_mid True (int (k mod 10000) + 1))"
    using Suc.IH by simp
  also have "\<dots> = (if k mod 10000 = 9999 then 1 else int (k mod 10000) + 2)"
    using bound by (auto simp: next_mid_def Let_def)
  also have "\<dots> = int (Suc k mod 10000) + 1"
    by (simp add: step)
  finally show ?case .
qed

lemma nth_localMid_closed:
  "1 \<le> n \<Longrightarrow> nth_localMid n = int ((n - 1) mod 10000) + 1"
proof -
  assume n: "1 \<le> n"
  then obtain k where k: "n = Suc k" by (cases n) auto
  have "nth_localMid n = mid_after (Suc k) 0"
    by (simp add: nth_localMid_def k next_mid_def Let_def)
  also have "\<dots> = int (k mod 10000) + 1"
    by (rule mid_after_Suc)
  finally show ?thesis by (simp add: k)
qed

text \<open>
  C2.  Starting from the initial counter value 0, the \<open>N\<close>-th sequential call of the
  generator returns \<open>N\<close> for every \<open>N < 10000\<close>, returns 10000 on the 10000th call and 1 on
  the 10001st, and never returns 0 or a value outside \<open>[1, 10000]\<close>.
\<close>

theorem mid_sequence:
  "(1 \<le> N \<and> N < 10000 \<longrightarrow> nth_localMid N = int N)
   \<and> nth_localMid 10000 = 10000
   \<and> nth_localMid 10001 = 1
   \<and> (1 \<le> N \<longrightarrow> 1 \<le> nth_localMid N \<and> nth_localMid N \<le> 10000)"
proof (intro conjI impI)
  assume a: "1 \<le> N \<and> N < 10000"
  then have "N - 1 < 10000" by arith
  then have "(N - 1) mod 10000 = N - 1" by (rule mod_less)
  with a show "nth_localMid N = int N"
    by (simp add: nth_localMid_closed)
next
  show "nth_localMid 10000 = 10000"
    by (simp add: nth_localMid_closed)
next
  show "nth_localMid 10001 = 1"
    by (simp add: nth_localMid_closed)
next
  assume n: "1 \<le> N"
  then show "1 \<le> nth_localMid N"
    by (simp add: nth_localMid_closed)
next
  assume n: "1 \<le> N"
  have "(N - 1) mod 10000 < 10000" by simp
  then have "int ((N - 1) mod 10000) + 1 \<le> 10000" by linarith
  with n show "nth_localMid N \<le> 10000"
    by (simp add: nth_localMid_closed)
qed

theorem mid_sequence_witness:
  "(1 \<le> (7::nat) \<and> (7::nat) < 10000) \<and> nth_localMid 7 = 7
   \<and> 1 \<le> nth_localMid 7 \<and> nth_localMid 7 \<le> 10000"
  using mid_sequence [of 7] by simp

subsection \<open>The codec\<close>




subsection \<open>One call of \<^verbatim>\<open>motorAxisGet\<close>\<close>

lemma motorAxisGet_matched:
  "get_matched e s \<Longrightarrow>
   motorAxisGet e location v s =
     (MOTOR_AXIS_OK, ack_data0 (get_reply e s),
      setInteger motorAxisCommError 0
        (s\<lparr>mid := snd (next_mid (lockOK e) (mid s)),
           pasynUser := snd (port_call (EvSyncWriteRead
              (enc_hdr \<lparr>length_f = 16, opcode = UC_GET, address = location,
                        index_f = word_of_int (axis (pAxis s) - 1),
                        correlationNumber = word_of_int (get_localMid e s)\<rparr>) 28) (pasynUser s)),
           comms := 0\<rparr>))"
  by (simp add: motorAxisGet_def get_matched_def get_reply_def get_localMid_def
      syncio_writeRead_def port_call_def Let_def sizeof_UcGetTelegram_def sizeof_Int32_def
      split: prod.splits)

lemma motorAxisGet_unmatched:
  "\<not> get_matched e s \<Longrightarrow>
   motorAxisGet e location v s =
     (MOTOR_AXIS_ERROR, v,
      (if comms s + 1 > 200 then setInteger motorAxisCommError 1 else id)
        (s\<lparr>mid := snd (next_mid (lockOK e) (mid s)),
           pasynUser := snd (port_call (EvSyncWriteRead
              (enc_hdr \<lparr>length_f = 16, opcode = UC_GET, address = location,
                        index_f = word_of_int (axis (pAxis s) - 1),
                        correlationNumber = word_of_int (get_localMid e s)\<rparr>) 28) (pasynUser s)),
           comms := comms s + 1\<rparr>))"
  by (auto simp add: motorAxisGet_def get_matched_def get_reply_def get_localMid_def
      syncio_writeRead_def port_call_def Let_def sizeof_UcGetTelegram_def sizeof_Int32_def
      split: prod.splits)


lemma motorAxisGet_value:
  "fst (snd (motorAxisGet e location v s)) = (if get_matched e s then ack_data0 (get_reply e s) else v)"
  by (simp add: motorAxisGet_matched motorAxisGet_unmatched)



lemma motorAxisGet_pAxis:
  "pAxis (snd (snd (motorAxisGet e location v s))) =
     (pAxis s)\<lparr>params := params (pAxis (snd (snd (motorAxisGet e location v s))))\<rparr>"
  by (cases "get_matched e s")
     (simp_all add: motorAxisGet_matched motorAxisGet_unmatched setInteger_def)













subsection \<open>The comm error latch\<close>



subsection \<open>\<^verbatim>\<open>motorAxisSet\<close>\<close>

lemma motorAxisSet_code:
  "fst (motorAxisSet e location v s) =
     (if a_status (next_answer (pasynUser s)) = asynSuccess then MOTOR_AXIS_OK else MOTOR_AXIS_ERROR)"
  by (simp add: motorAxisSet_def syncio_write_def port_call_def Let_def split: prod.splits)

lemma motorAxisSet_trace:
  "trace (pasynUser (snd (motorAxisSet e location v s))) =
     trace (pasynUser s) @
     [EvSyncWrite (enc_hdr \<lparr>length_f = 20, opcode = UC_SET, address = location,
                     index_f = word_of_int (axis (pAxis s) - 1),
                     correlationNumber = word_of_int (fst (next_mid (lockOK e) (mid s)))\<rparr>
                   @ enc32 v)]"
  by (simp add: motorAxisSet_def syncio_write_def port_call_def Let_def
      sizeof_UcSetTelegram_def sizeof_Int32_def split: prod.splits)

text \<open>
  C8.  The claim asks that a set reports success only once a matching Ack has been
  received.  \<^verbatim>\<open>motorAxisSet\<close> returns \<^verbatim>\<open>MOTOR_AXIS_OK\<close> as soon as the write succeeded: on
  a port that accepts the write and never delivers a byte it reports success, and the
  trace shows the single write and no read.
\<close>

theorem motorAxisSet_ok_without_ack:
  "fst (motorAxisSet env0 ID_ANC_TARGET 5000 write_only_state) = MOTOR_AXIS_OK
   \<and> trace (pasynUser (snd (motorAxisSet env0 ID_ANC_TARGET 5000 write_only_state))) =
       [EvSyncWrite (enc_hdr \<lparr>length_f = 20, opcode = UC_SET, address = ID_ANC_TARGET,
                       index_f = 0, correlationNumber = 1\<rparr> @ enc32 5000)]"
  by (simp add: motorAxisSet_code motorAxisSet_trace write_only_state_def write_only_port_def
      next_answer_def env0_def next_mid_def axis1_def)

subsection \<open>One failure counter for all controllers\<close>

lemma world_get_state:
  "snd (snd (world_motorAxisGet e h location v w)) =
     axis_store h (snd (snd (motorAxisGet e location v (axis_view h w)))) w"
  by (simp add: world_motorAxisGet_def split: prod.splits)



lemma world_get_axes:
  "w_axes (snd (snd (world_motorAxisGet e h location v w))) =
     (w_axes w)(h := pAxis (snd (snd (motorAxisGet e location v (axis_view h w)))))"
  unfolding world_get_state by (simp add: axis_store_def)






lemma world_get_run_other_axis:
  "\<forall>c\<in>set cs. fst (snd c) \<noteq> h' \<Longrightarrow> w_axes (world_get_run cs w) h' = w_axes w h'"
proof (induction cs arbitrary: w)
  case Nil
  show ?case by simp
next
  case (Cons c cs)
  then show ?case by (auto simp: world_get_axes)
qed





end
